theory Spec2Isabelle
  imports Main
begin

section \<open>The HTTP stream layer of a gansoi node\<close>

text \<open>
  The source is \<^verbatim>\<open>HTTPStream\<close> (package node): a raft stream layer whose outbound side
  dials a peer over TLS and writes an upgrade request, and whose inbound side is an
  \<^verbatim>\<open>http.Handler\<close> that hijacks the connection of a valid request and hands it to
  \<^verbatim>\<open>Accept\<close> through an unbuffered channel.

  The embedding keeps the objects of the source behind handles, as Go does: listeners
  live in a heap and are named by pointers, connections live in a table of sockets and
  are named by their index, and a channel is named by a number. Every method is a
  function from the world to the point the call reaches (it returned, it panicked on a
  nil receiver, or it is blocked on the channel) and the world it leaves.
\<close>

subsection \<open>Connections\<close>

type_synonym ptr = nat
type_synonym chan = nat
type_synonym sock = nat

text \<open>
  A \<^verbatim>\<open>net.Conn\<close>. A deadline is \<open>None\<close> for the zero \<^verbatim>\<open>time.Time{}\<close> (no deadline).
  \<open>write_fault\<close> is the transport's answer to the next \<^verbatim>\<open>Write\<close>: the error it gives,
  if any. \<open>unread\<close> is what the peer has sent and nobody has read yet.
\<close>

record conn =
  read_deadline :: "int option"
  write_deadline :: "int option"
  sent :: string
  unread :: string
  conn_closed :: bool
  write_fault :: "string option"

definition net_closed :: string where
  "net_closed = ''use of closed network connection''"

definition SetDeadline :: "conn \<Rightarrow> int option \<Rightarrow> string option \<times> conn" where
  "SetDeadline c t =
     (if conn_closed c then (Some net_closed, c)
      else (None, c\<lparr>read_deadline := t, write_deadline := t\<rparr>))"

definition SetWriteDeadline :: "conn \<Rightarrow> int option \<Rightarrow> string option \<times> conn" where
  "SetWriteDeadline c t =
     (if conn_closed c then (Some net_closed, c)
      else (None, c\<lparr>write_deadline := t\<rparr>))"

definition Write :: "conn \<Rightarrow> string \<Rightarrow> (string + nat) \<times> conn" where
  "Write c b =
     (if conn_closed c then (Inl net_closed, c)
      else case write_fault c of
             Some e \<Rightarrow> (Inl e, c)
           | None \<Rightarrow> (Inr (length b), c\<lparr>sent := sent c @ b\<rparr>))"

definition conn_Close :: "conn \<Rightarrow> conn" where
  "conn_Close c = c\<lparr>conn_closed := True\<rparr>"

text \<open>A method call through a handle: it acts on the socket the handle names.\<close>

definition sock_upd :: "sock \<Rightarrow> (conn \<Rightarrow> conn) \<Rightarrow> conn list \<Rightarrow> conn list" where
  "sock_upd n f cs = (if n < length cs then cs[n := f (cs ! n)] else cs)"

subsection \<open>Requests, the certificate authority, the listener\<close>

text \<open>
  \<^verbatim>\<open>http.Header\<close> is a map from canonical keys to lists of values; \<^verbatim>\<open>Get\<close> returns the
  first value of the key and the empty string when there is none. The key \<^verbatim>\<open>Upgrade\<close>
  of the source is canonical already.
\<close>

record Request =
  Header :: "string \<rightharpoonup> string list"

definition Header_Get :: "(string \<rightharpoonup> string list) \<Rightarrow> string \<Rightarrow> string" where
  "Header_Get hdr key = (case hdr key of None \<Rightarrow> [] | Some [] \<Rightarrow> [] | Some (v # _) \<Rightarrow> v)"

text \<open>
  The response writer of the embedding server. \<open>Hijacker\<close> is \<open>None\<close> when the writer
  does not implement \<^verbatim>\<open>http.Hijacker\<close>; otherwise it is what \<^verbatim>\<open>Hijack()\<close> returns: an
  error, or the handle of the request's connection.
\<close>

record ResponseWriter =
  Hijacker :: "(string + sock) option"

text \<open>
  The package \<^verbatim>\<open>ca\<close> is not part of the source at hand. Its two operations the stream
  uses are taken as parameters: the fields of the CA object.
\<close>

record CA =
  CertPool :: "string list"
  VerifyHTTPRequest :: "Request \<Rightarrow> string + string"

record Dialer =
  Timeout :: int
  KeepAlive :: int

record tls_Config =
  RootCAs :: "string list"
  Certificates :: "string list"
  ServerName :: string
  InsecureSkipVerify :: bool

record HTTPStream =
  closed :: bool
  addr :: string
  accepted :: chan
  dial :: Dialer
  certificates :: "string list"
  ca :: CA
  rootCAs :: "string list"

subsection \<open>Calls and the world\<close>

text \<open>
  Where a call stands: not started yet (\<open>\<dots>Call\<close>), returned (\<open>\<dots>Ret\<close>), blocked on the
  unbuffered channel (\<open>AcceptRecv\<close> in \<^verbatim>\<open><-h.accepted\<close>, \<open>ServeSend\<close> in
  \<^verbatim>\<open>h.accepted <- conn\<close>), or panicked on a nil receiver. \<open>ServeRet\<close> carries the status
  and body \<^verbatim>\<open>http.Error\<close> wrote, or \<open>None\<close> when the handler returned after the handoff.
\<close>

datatype proc =
    NewCall string "string list" CA
  | NewRet ptr
  | DialCall ptr string int
  | DialRet "string + sock"
  | AcceptCall ptr
  | AcceptRecv chan
  | AcceptRet "string + sock"
  | CloseCall ptr
  | CloseRet "string option"
  | AddrCall ptr
  | AddrRet ptr
  | StringCall ptr
  | StringRet string
  | NetworkCall ptr
  | NetworkRet string
  | ServeCall ptr Request ResponseWriter
  | ServeSend chan sock
  | ServeRet "(nat \<times> string) option"
  | Panicked

text \<open>
  \<open>network\<close> is the environment's answer to \<^verbatim>\<open>tls.DialWithDialer\<close>: an error, or the
  connection it established. \<open>tls_dials\<close> records the calls made to it, oldest first,
  and \<open>hijack_calls\<close> counts the calls of \<^verbatim>\<open>Hijack()\<close>.
\<close>

record world =
  heap :: "HTTPStream list"
  chans :: nat
  socks :: "conn list"
  counters :: "string \<Rightarrow> nat"
  debug_log :: "string list"
  stdout :: "string list"
  tls_dials :: "(Dialer \<times> string \<times> string \<times> tls_Config) list"
  hijack_calls :: nat
  network :: "Dialer \<Rightarrow> string \<Rightarrow> string \<Rightarrow> tls_Config \<Rightarrow> string + conn"
  procs :: "proc list"

definition CounterInc :: "string \<Rightarrow> nat \<Rightarrow> world \<Rightarrow> world" where
  "CounterInc name n w = w\<lparr>counters := (counters w)(name := counters w name + n)\<rparr>"

definition Debug :: "string \<Rightarrow> string \<Rightarrow> world \<Rightarrow> world" where
  "Debug facility msg w = w\<lparr>debug_log := debug_log w @ [facility @ '': '' @ msg]\<rparr>"

definition Printf :: "string \<Rightarrow> world \<Rightarrow> world" where
  "Printf msg w = w\<lparr>stdout := stdout w @ [msg]\<rparr>"

definition http_Error :: "string \<Rightarrow> nat \<Rightarrow> nat \<times> string" where
  "http_Error msg code = (code, msg @ ''\<newline>'')"

definition Second :: int where
  "Second = 1000000000"

text \<open>
  \<^verbatim>\<open>tls.DialWithDialer\<close>: on success the new connection gets the next free handle. On
  failure the library has closed what it opened and no handle exists.
\<close>

definition tls_DialWithDialer ::
  "world \<Rightarrow> Dialer \<Rightarrow> string \<Rightarrow> string \<Rightarrow> tls_Config \<Rightarrow> (string + sock) \<times> world" where
  "tls_DialWithDialer w d net address conf =
     (let w1 = w\<lparr>tls_dials := tls_dials w @ [(d, net, address, conf)]\<rparr> in
      case network w d net address conf of
        Inl err \<Rightarrow> (Inl err, w1)
      | Inr c \<Rightarrow> (Inr (length (socks w)), w1\<lparr>socks := socks w @ [c]\<rparr>))"

subsection \<open>The methods\<close>

definition NewHTTPStream :: "world \<Rightarrow> string \<Rightarrow> string list \<Rightarrow> CA \<Rightarrow> proc \<times> world" where
  "NewHTTPStream w a certs coreCA =
     (let d = \<lparr>Timeout = 0, KeepAlive = Second * 25\<rparr>;
          h = \<lparr>closed = False, addr = a, accepted = chans w, dial = d,
               certificates = certs, ca = coreCA, rootCAs = CertPool coreCA\<rparr>
      in (NewRet (length (heap w)), w\<lparr>heap := heap w @ [h], chans := chans w + 1\<rparr>))"

text \<open>\<^verbatim>\<open>strings.IndexRune\<close> for a rune below \<^verbatim>\<open>utf8.RuneSelf\<close>: the index of the first such byte, or -1.\<close>

fun IndexRune :: "string \<Rightarrow> char \<Rightarrow> int" where
  "IndexRune [] r = - 1"
| "IndexRune (x # xs) r =
     (if x = r then 0 else (let i = IndexRune xs r in if i < 0 then - 1 else i + 1))"

definition dial_address :: "string \<Rightarrow> string" where
  "dial_address address = (if IndexRune address CHR '':'' < 0 then address @ '':4934'' else address)"

definition upgrade_request :: "string \<Rightarrow> string \<Rightarrow> string" where
  "upgrade_request CorePrefix address =
     ''GET '' @ CorePrefix @ ''/raft HTTP/1.1\<newline>Host: '' @ address @ ''\<newline>Upgrade: raft-0\<newline>\<newline>''"

text \<open>
  \<^verbatim>\<open>Dial\<close>. The constant \<^verbatim>\<open>cluster.CorePrefix\<close> is declared outside the source at hand and
  is the first parameter.
\<close>

definition Dial :: "string \<Rightarrow> world \<Rightarrow> ptr \<Rightarrow> string \<Rightarrow> int \<Rightarrow> proc \<times> world" where
  "Dial CorePrefix w h address timeout =
     (if \<not> h < length (heap w) then (Panicked, w)
      else
        let d = (dial (heap w ! h))\<lparr>Timeout := timeout\<rparr>;
            address = dial_address address;
            w1 = CounterInc ''http_dialed'' 1 w;
            w2 = Debug ''httpstream'' (''Dialing '' @ address) w1;
            conf = \<lparr>RootCAs = rootCAs (heap w ! h), Certificates = certificates (heap w ! h),
                    ServerName = address, InsecureSkipVerify = True\<rparr>
        in case tls_DialWithDialer w2 d ''tcp'' address conf of
             (Inl err, w3) \<Rightarrow>
               (DialRet (Inl err),
                Printf (''ERRRRRROR '' @ err @ ''\<newline>'') (CounterInc ''http_failed'' 1 w3))
           | (Inr c, w3) \<Rightarrow>
               (case Write (socks w3 ! c) (upgrade_request CorePrefix address) of
                  (Inl err, k) \<Rightarrow>
                    (DialRet (Inl err),
                     CounterInc ''http_failed'' 1 (w3\<lparr>socks := (socks w3)[c := conn_Close k]\<rparr>))
                | (Inr _, k) \<Rightarrow> (DialRet (Inr c), w3\<lparr>socks := (socks w3)[c := k]\<rparr>)))"

definition Accept :: "world \<Rightarrow> ptr \<Rightarrow> proc \<times> world" where
  "Accept w h =
     (if \<not> h < length (heap w) then (Panicked, w)
      else if closed (heap w ! h) then (AcceptRet (Inl ''Server is shutting down''), w)
      else (AcceptRecv (accepted (heap w ! h)), CounterInc ''http_accepted'' 1 w))"

definition Close :: "world \<Rightarrow> ptr \<Rightarrow> proc \<times> world" where
  "Close w h =
     (if \<not> h < length (heap w) then (Panicked, w)
      else (CloseRet None, w\<lparr>heap := (heap w)[h := (heap w ! h)\<lparr>closed := True\<rparr>]\<rparr>))"

definition Addr :: "ptr \<Rightarrow> ptr" where
  "Addr h = h"

definition String :: "world \<Rightarrow> ptr \<Rightarrow> proc \<times> world" where
  "String w h = (if \<not> h < length (heap w) then (Panicked, w) else (StringRet (addr (heap w ! h)), w))"

definition Network :: "ptr \<Rightarrow> string" where
  "Network h = ''tcp''"

definition ServeHTTP :: "world \<Rightarrow> ptr \<Rightarrow> Request \<Rightarrow> ResponseWriter \<Rightarrow> proc \<times> world" where
  "ServeHTTP w h r rw =
     (let w1 = CounterInc ''http_served'' 1 w in
      if \<not> h < length (heap w1) then (Panicked, w1)
      else if closed (heap w1 ! h) then
        (ServeRet (Some (http_Error ''Server is shutting down'' 503)), w1)
      else if Header_Get (Header r) ''Upgrade'' \<noteq> ''raft-0'' then
        (ServeRet (Some (http_Error ''This endpoint is for streaming raft'' 400)), w1)
      else case VerifyHTTPRequest (ca (heap w1 ! h)) r of
        Inl err \<Rightarrow> (ServeRet (Some (http_Error err 401)), w1)
      | Inr _ \<Rightarrow>
          (case Hijacker rw of
             None \<Rightarrow> (ServeRet (Some (http_Error ''webserver doesn't support hijacking'' 500)), w1)
           | Some hj \<Rightarrow>
               (let w2 = w1\<lparr>hijack_calls := hijack_calls w1 + 1\<rparr> in
                case hj of
                  Inl err \<Rightarrow> (ServeRet (Some (http_Error err 500)), w2)
                | Inr c \<Rightarrow>
                    (let w3 = w2\<lparr>socks := sock_upd c (\<lambda>k. snd (SetDeadline k None)) (socks w2)\<rparr>;
                         w4 = w3\<lparr>socks := sock_upd c (\<lambda>k. snd (SetWriteDeadline k None)) (socks w3)\<rparr>
                     in (ServeSend (accepted (heap w4 ! h)) c, w4)))))"

subsection \<open>Interleaving\<close>

text \<open>
  Goroutines interleave. Each call runs in one step up to its return or to the channel
  operation it blocks in: of the state other goroutines write, a call reads only the
  \<open>closed\<close> flag, and reads it once. The two halves of a channel operation meet in a
  \<open>Rendezvous\<close> of a blocked sender and a blocked receiver of the same channel; an
  unbuffered channel has no other way to pass a value.
\<close>

fun call :: "string \<Rightarrow> world \<Rightarrow> proc \<Rightarrow> (proc \<times> world) option" where
  "call P w (NewCall a certs coreCA) = Some (NewHTTPStream w a certs coreCA)"
| "call P w (DialCall h a t) = Some (Dial P w h a t)"
| "call P w (AcceptCall h) = Some (Accept w h)"
| "call P w (CloseCall h) = Some (Close w h)"
| "call P w (AddrCall h) = Some (AddrRet (Addr h), w)"
| "call P w (StringCall h) = Some (String w h)"
| "call P w (NetworkCall h) = Some (NetworkRet (Network h), w)"
| "call P w (ServeCall h r rw) = Some (ServeHTTP w h r rw)"
| "call P w _ = None"

fun rendezvous :: "proc \<Rightarrow> proc \<Rightarrow> (proc \<times> proc) option" where
  "rendezvous (ServeSend ch c) (AcceptRecv ch') =
     (if ch = ch' then Some (ServeRet None, AcceptRet (Inr c)) else None)"
| "rendezvous _ _ = None"

datatype event = Run nat | Rendezvous nat nat

fun step :: "string \<Rightarrow> world \<Rightarrow> event \<Rightarrow> world option" where
  "step P w (Run i) =
     (if i < length (procs w) then
        (case call P w (procs w ! i) of
           None \<Rightarrow> None
         | Some (p, w') \<Rightarrow> Some (w'\<lparr>procs := (procs w')[i := p]\<rparr>))
      else None)"
| "step P w (Rendezvous i j) =
     (if i < length (procs w) \<and> j < length (procs w) then
        (case rendezvous (procs w ! i) (procs w ! j) of
           None \<Rightarrow> None
         | Some (p, q) \<Rightarrow> Some (w\<lparr>procs := (procs w)[i := p, j := q]\<rparr>))
      else None)"

fun run :: "string \<Rightarrow> world \<Rightarrow> event list \<Rightarrow> world option" where
  "run P w [] = Some w"
| "run P w (e # es) = (case step P w e of None \<Rightarrow> None | Some w' \<Rightarrow> run P w' es)"

text \<open>A world to start from: nothing allocated, no traffic yet.\<close>

definition world0 ::
  "(Dialer \<Rightarrow> string \<Rightarrow> string \<Rightarrow> tls_Config \<Rightarrow> string + conn) \<Rightarrow> proc list \<Rightarrow> world" where
  "world0 nw ps =
     \<lparr>heap = [], chans = 0, socks = [], counters = (\<lambda>_. 0), debug_log = [], stdout = [],
      tls_dials = [], hijack_calls = 0, network = nw, procs = ps\<rparr>"

definition fresh_conn :: conn where
  "fresh_conn = \<lparr>read_deadline = None, write_deadline = None, sent = [], unread = [],
                 conn_closed = False, write_fault = None\<rparr>"

text \<open>The connections of a world that are still open.\<close>

definition open_conns :: "world \<Rightarrow> conn list" where
  "open_conns w = filter (\<lambda>k. \<not> conn_closed k) (socks w)"

subsection \<open>A node to run\<close>

text \<open>
  A certificate authority that knows one peer, a network with one host that refuses and
  one whose connection breaks at the first write, a connection the web server has accepted
  and set deadlines on, and a node with one listener.
\<close>

definition ca0 :: CA where
  "ca0 = \<lparr>CertPool = [''root''],
          VerifyHTTPRequest = (\<lambda>r. if Header_Get (Header r) ''X-Peer'' = ''node2''
                                    then Inr ''node2'' else Inl ''unknown peer'')\<rparr>"

definition net0 :: "Dialer \<Rightarrow> string \<Rightarrow> string \<Rightarrow> tls_Config \<Rightarrow> string + conn" where
  "net0 d n a conf =
     (if a = ''down:4934'' then Inl ''connection refused''
      else if a = ''flaky:4934'' then Inr (fresh_conn\<lparr>write_fault := Some ''broken pipe''\<rparr>)
      else Inr fresh_conn)"

definition inbound_conn :: conn where
  "inbound_conn = fresh_conn\<lparr>read_deadline := Some 30, write_deadline := Some 30\<rparr>"

definition node0 :: "proc list \<Rightarrow> world" where
  "node0 ps = snd (NewHTTPStream ((world0 net0 ps)\<lparr>socks := [inbound_conn]\<rparr>)
                     ''10.0.0.1:4934'' [''cert''] ca0)"

definition peer_request :: Request where
  "peer_request = \<lparr>Header = [''Upgrade'' \<mapsto> [''raft-0''], ''X-Peer'' \<mapsto> [''node2'']]\<rparr>"

definition stranger_request :: Request where
  "stranger_request = \<lparr>Header = [''Upgrade'' \<mapsto> [''raft-0'']]\<rparr>"

definition hijackable :: "sock \<Rightarrow> ResponseWriter" where
  "hijackable c = \<lparr>Hijacker = Some (Inr c)\<rparr>"

text \<open>The line ending HTTP/1.1 prescribes, and the answer of a handler on a closed listener.\<close>

definition CRLF :: string where
  "CRLF = [CHR 0x0D, CHR ''\<newline>'']"

definition shutting_down :: proc where
  "shutting_down = ServeRet (Some (503, ''Server is shutting down\<newline>''))"



section \<open>Properties\<close>

subsection \<open>What each call leaves unchanged\<close>

lemma IndexRune_neg: "IndexRune s r < 0 \<longleftrightarrow> r \<notin> set s"
  by (induction s) (auto simp: Let_def)

lemma dial_address_eq: "dial_address a = (if CHR '':'' \<in> set a then a else a @ '':4934'')"
  by (simp add: dial_address_def IndexRune_neg)

lemmas env_defs = CounterInc_def Debug_def Printf_def

lemma Dial_heap: "heap (snd (Dial P w h a t)) = heap w"
  by (simp add: Dial_def tls_DialWithDialer_def Let_def env_defs split: sum.splits prod.splits)

lemma Dial_procs: "procs (snd (Dial P w h a t)) = procs w"
  by (simp add: Dial_def tls_DialWithDialer_def Let_def env_defs split: sum.splits prod.splits)

lemma Accept_frame: "heap (snd (Accept w h)) = heap w \<and> procs (snd (Accept w h)) = procs w"
  by (simp add: Accept_def env_defs)

lemma ServeHTTP_frame: "heap (snd (ServeHTTP w h r rw)) = heap w \<and> procs (snd (ServeHTTP w h r rw)) = procs w"
  by (simp add: ServeHTTP_def Let_def env_defs split: sum.splits option.splits)

lemma String_frame: "snd (String w h) = w"
  by (simp add: String_def)

lemma Close_procs: "procs (snd (Close w h)) = procs w"
  by (simp add: Close_def)

lemma Close_heap:
  "length (heap (snd (Close w h))) = length (heap w) \<and>
   (g < length (heap w) \<longrightarrow>
      heap (snd (Close w h)) ! g = (if g = h then (heap w ! g)\<lparr>closed := True\<rparr> else heap w ! g))"
  by (simp add: Close_def)

lemma New_heap:
  "heap (snd (NewHTTPStream w a certs k)) = heap w @ [\<lparr>closed = False, addr = a, accepted = chans w,
      dial = \<lparr>Timeout = 0, KeepAlive = Second * 25\<rparr>, certificates = certs, ca = k, rootCAs = CertPool k\<rparr>]
   \<and> procs (snd (NewHTTPStream w a certs k)) = procs w \<and> fst (NewHTTPStream w a certs k) = NewRet (length (heap w))"
  by (simp add: NewHTTPStream_def Let_def)

text \<open>What a call leaves of a listener that exists: everything but, possibly, a raised flag.\<close>

lemma call_listener:
  assumes "call P w p = Some (q, w')" and "h < length (heap w)"
  shows "h < length (heap w') \<and> procs w' = procs w \<and>
         (heap w' ! h = heap w ! h \<or> heap w' ! h = (heap w ! h)\<lparr>closed := True\<rparr>)"
proof (cases p)
  case (NewCall a certs k)
  with assms show ?thesis using New_heap [of w a certs k]
    by (auto simp: nth_append)
next
  case (DialCall g a t)
  with assms show ?thesis using Dial_heap [of P w g a t] Dial_procs [of P w g a t] by auto
next
  case (AcceptCall g)
  with assms show ?thesis using Accept_frame [of w g] by auto
next
  case (CloseCall g)
  with assms show ?thesis using Close_heap [of w g h] Close_procs [of w g] by auto
next
  case (StringCall g)
  with assms show ?thesis using String_frame [of w g] by auto
next
  case (ServeCall g r rw)
  with assms show ?thesis using ServeHTTP_frame [of w g r rw] by auto
qed (use assms in auto)

lemma step_listener:
  assumes "step P w ev = Some w'" and "h < length (heap w)"
  shows "h < length (heap w') \<and> length (procs w') = length (procs w) \<and>
         (heap w' ! h = heap w ! h \<or> heap w' ! h = (heap w ! h)\<lparr>closed := True\<rparr>)"
proof (cases ev)
  case (Run i)
  with assms obtain q w1 where c: "call P w (procs w ! i) = Some (q, w1)"
    and w': "w' = w1\<lparr>procs := (procs w1)[i := q]\<rparr>"
    by (auto split: if_splits option.splits)
  from call_listener [OF c assms(2)] w' show ?thesis by auto
next
  case (Rendezvous i j)
  with assms show ?thesis by (auto split: if_splits option.splits)
qed

lemma run_listener:
  assumes "run P w evs = Some w'" and "h < length (heap w)"
  shows "h < length (heap w') \<and> length (procs w') = length (procs w) \<and>
         (heap w' ! h = heap w ! h \<or> heap w' ! h = (heap w ! h)\<lparr>closed := True\<rparr>)"
  using assms
proof (induction evs arbitrary: w)
  case Nil
  then show ?case by simp
next
  case (Cons e es)
  then obtain w1 where s: "step P w e = Some w1" and r: "run P w1 es = Some w'"
    by (auto split: option.splits)
  from step_listener [OF s Cons.prems(2)] Cons.IH [OF r] show ?case by auto
qed

lemmas demo_defs = node0_def inbound_conn_def peer_request_def stranger_request_def hijackable_def NewHTTPStream_def world0_def net0_def ca0_def fresh_conn_def Let_def

subsection \<open>Accept on a closed listener\<close>

text \<open>
  Claim C2. A call of \<^verbatim>\<open>Accept\<close> on a listener whose \<open>closed\<close> flag is set returns the
  error "Server is shutting down" at once: the call reaches its return, not the channel
  receive, it returns no connection, and it leaves the world as it was (the accepted
  counter included).
\<close>

theorem Accept_closed:
  assumes "h < length (heap w)" and "closed (heap w ! h)"
  shows "Accept w h = (AcceptRet (Inl ''Server is shutting down''), w)"
  using assms by (simp add: Accept_def)

theorem Accept_closed_witness:
  "Accept (snd (Close (node0 []) 0)) 0 =
     (AcceptRet (Inl ''Server is shutting down''), snd (Close (node0 []) 0))"
  using Accept_closed [of 0 "snd (Close (node0 []) 0)"]
  by (simp add: Close_def demo_defs)

subsection \<open>The address Dial targets\<close>

text \<open>
  Claim C5. \<^verbatim>\<open>Dial\<close> makes one call of \<^verbatim>\<open>tls.DialWithDialer\<close>; its address (and the server
  name of its TLS configuration) is the given address when that contains a colon, and
  the given address followed by \<^verbatim>\<open>:4934\<close> when it contains none.
\<close>

theorem Dial_default_port:
  assumes "h < length (heap w)"
  shows "tls_dials (snd (Dial P w h a t)) =
           tls_dials w @
           [((dial (heap w ! h))\<lparr>Timeout := t\<rparr>, ''tcp'',
             (if CHR '':'' \<in> set a then a else a @ '':4934''),
             \<lparr>RootCAs = rootCAs (heap w ! h), Certificates = certificates (heap w ! h),
              ServerName = (if CHR '':'' \<in> set a then a else a @ '':4934''),
              InsecureSkipVerify = True\<rparr>)]"
  using assms
  by (simp add: Dial_def tls_DialWithDialer_def Let_def env_defs dial_address_eq
      split: sum.splits prod.splits)

theorem Dial_default_port_witness:
  "map (\<lambda>(d, n, a, c). a) (tls_dials (snd (Dial ''/core'' (node0 []) 0 ''10.0.0.5'' 5))) = [''10.0.0.5:4934'']
   \<and> map (\<lambda>(d, n, a, c). a) (tls_dials (snd (Dial ''/core'' (node0 []) 0 ''10.0.0.5:9000'' 5))) = [''10.0.0.5:9000'']"
  using Dial_default_port [of 0 "node0 []" "''/core''" "''10.0.0.5''" 5]
    Dial_default_port [of 0 "node0 []" "''/core''" "''10.0.0.5:9000''" 5]
  by (simp add: demo_defs)

subsection \<open>Requests the certificate authority rejects\<close>

text \<open>
  Claim C6. On an open listener, a request whose \<^verbatim>\<open>Upgrade\<close> header is \<^verbatim>\<open>raft-0\<close> and
  which the CA rejects with error \<open>err\<close> is answered with status 401 and body \<open>err\<close>
  (and the newline \<^verbatim>\<open>http.Error\<close> appends); the handler returns, \<^verbatim>\<open>Hijack()\<close> is not
  called, and no connection is touched, whatever the response writer could do.
\<close>

theorem ServeHTTP_unauthorized:
  assumes "h < length (heap w)" and "\<not> closed (heap w ! h)"
    and "Header_Get (Header r) ''Upgrade'' = ''raft-0''"
    and "VerifyHTTPRequest (ca (heap w ! h)) r = Inl err"
  shows "ServeHTTP w h r rw =
           (ServeRet (Some (401, err @ ''\<newline>'')), CounterInc ''http_served'' 1 w)
         \<and> hijack_calls (snd (ServeHTTP w h r rw)) = hijack_calls w
         \<and> socks (snd (ServeHTTP w h r rw)) = socks w"
  using assms by (simp add: ServeHTTP_def Let_def env_defs http_Error_def)

theorem ServeHTTP_unauthorized_witness:
  "ServeHTTP (node0 []) 0 stranger_request (hijackable 0) =
     (ServeRet (Some (401, ''unknown peer\<newline>'')), CounterInc ''http_served'' 1 (node0 []))
   \<and> hijack_calls (snd (ServeHTTP (node0 []) 0 stranger_request (hijackable 0))) = 0
   \<and> socks (snd (ServeHTTP (node0 []) 0 stranger_request (hijackable 0))) = [inbound_conn]"
proof -
  have 1: "0 < length (heap (node0 []))" and 2: "\<not> closed (heap (node0 []) ! 0)"
    and 3: "Header_Get (Header stranger_request) ''Upgrade'' = ''raft-0''"
    and 4: "VerifyHTTPRequest (ca (heap (node0 []) ! 0)) stranger_request = Inl ''unknown peer''"
    and 5: "hijack_calls (node0 []) = 0" and 6: "socks (node0 []) = [inbound_conn]"
    by (simp_all add: demo_defs Header_Get_def)
  from ServeHTTP_unauthorized [OF 1 2 3 4, of "hijackable 0"] 5 6 show ?thesis
    by (simp add: CounterInc_def)
qed

subsection \<open>Dial and the listener\<close>

text \<open>
  Claim C10. \<^verbatim>\<open>Dial\<close> leaves every listener of the heap as it was, whatever its
  arguments and its outcome: the timeout goes into a copy of the stored dialer, and it
  is that copy \<^verbatim>\<open>tls.DialWithDialer\<close> receives.
\<close>

theorem Dial_frame:
  "heap (snd (Dial P w h a t)) = heap w \<and>
   (h < length (heap w) \<longrightarrow>
      fst (last (tls_dials (snd (Dial P w h a t)))) = (dial (heap w ! h))\<lparr>Timeout := t\<rparr>)"
  by (simp add: Dial_def tls_DialWithDialer_def Let_def env_defs split: sum.splits prod.splits)

theorem Dial_frame_witness:
  "heap (snd (Dial ''/core'' (node0 []) 0 ''10.0.0.5'' 5)) = heap (node0 []) \<and>
   fst (last (tls_dials (snd (Dial ''/core'' (node0 []) 0 ''10.0.0.5'' 5)))) = \<lparr>Timeout = 5, KeepAlive = 25000000000\<rparr> \<and>
   dial (heap (snd (Dial ''/core'' (node0 []) 0 ''10.0.0.5'' 5)) ! 0) = \<lparr>Timeout = 0, KeepAlive = 25000000000\<rparr>"
  using Dial_frame [of "''/core''" "node0 []" 0 "''10.0.0.5''" 5]
  by (simp add: demo_defs Second_def)

subsection \<open>The outcomes of Dial\<close>

lemma Dial_cases:
  fixes w :: world and h :: ptr and t :: int and a P :: string
  assumes "h < length (heap w)"
  defines "d \<equiv> (dial (heap w ! h))\<lparr>Timeout := t\<rparr>"
    and "tgt \<equiv> dial_address a"
  defines "conf \<equiv> \<lparr>RootCAs = rootCAs (heap w ! h), Certificates = certificates (heap w ! h),
                    ServerName = tgt, InsecureSkipVerify = True\<rparr>"
  defines "w2 \<equiv> (Debug ''httpstream'' (''Dialing '' @ tgt) (CounterInc ''http_dialed'' 1 w))
                   \<lparr>tls_dials := tls_dials w @ [(d, ''tcp'', tgt, conf)]\<rparr>"
  shows "Dial P w h a t =
     (case network w d ''tcp'' tgt conf of
        Inl err \<Rightarrow> (DialRet (Inl err),
                    Printf (''ERRRRRROR '' @ err @ ''\<newline>'') (CounterInc ''http_failed'' 1 w2))
      | Inr k \<Rightarrow>
          (case Write k (upgrade_request P tgt) of
             (Inl err, k') \<Rightarrow> (DialRet (Inl err),
                 CounterInc ''http_failed'' 1 (w2\<lparr>socks := socks w @ [conn_Close k']\<rparr>))
           | (Inr n, k') \<Rightarrow> (DialRet (Inr (length (socks w))), w2\<lparr>socks := socks w @ [k']\<rparr>)))"
  using assms(1) unfolding d_def tgt_def conf_def w2_def
  by (simp add: Dial_def tls_DialWithDialer_def Let_def env_defs
      split: sum.splits prod.splits)

lemmas dial_eval = Dial_def tls_DialWithDialer_def env_defs Write_def conn_Close_def
  dial_address_def upgrade_request_def open_conns_def demo_defs

text \<open>
  Claim C7. \<^verbatim>\<open>Dial\<close> calls \<^verbatim>\<open>tls.DialWithDialer\<close> once (no retry) and counts the attempt in
  \<^verbatim>\<open>http_dialed\<close>, whatever comes of it. When the TLS layer answers with an error, \<^verbatim>\<open>Dial\<close>
  returns that error, has counted it in \<^verbatim>\<open>http_failed\<close>, and the sockets are as before.
  When the TLS layer gives a connection and the write of the upgrade request fails,
  \<^verbatim>\<open>Dial\<close> returns the error of the write, has counted it in \<^verbatim>\<open>http_failed\<close>, and the new
  connection is in the table closed: the open connections are those that were open
  before. When the write succeeds, \<^verbatim>\<open>Dial\<close> returns the new connection, open, and
  \<^verbatim>\<open>http_failed\<close> is as before.
\<close>

theorem Dial_outcomes:
  fixes w :: world and h :: ptr and t :: int and a P :: string
  assumes "h < length (heap w)"
  defines "d \<equiv> (dial (heap w ! h))\<lparr>Timeout := t\<rparr>"
    and "tgt \<equiv> dial_address a"
  defines "conf \<equiv> \<lparr>RootCAs = rootCAs (heap w ! h), Certificates = certificates (heap w ! h),
                    ServerName = tgt, InsecureSkipVerify = True\<rparr>"
  defines "D \<equiv> Dial P w h a t"
  shows "tls_dials (snd D) = tls_dials w @ [(d, ''tcp'', tgt, conf)] \<and>
         counters (snd D) ''http_dialed'' = counters w ''http_dialed'' + 1 \<and>
         (case network w d ''tcp'' tgt conf of
            Inl err \<Rightarrow>
              fst D = DialRet (Inl err) \<and>
              counters (snd D) ''http_failed'' = counters w ''http_failed'' + 1 \<and>
              socks (snd D) = socks w
          | Inr k \<Rightarrow>
              (case Write k (upgrade_request P tgt) of
                 (Inl err, k') \<Rightarrow>
                   fst D = DialRet (Inl err) \<and>
                   counters (snd D) ''http_failed'' = counters w ''http_failed'' + 1 \<and>
                   socks (snd D) = socks w @ [k'\<lparr>conn_closed := True\<rparr>] \<and>
                   open_conns (snd D) = open_conns w
               | (Inr n, k') \<Rightarrow>
                   fst D = DialRet (Inr (length (socks w))) \<and>
                   counters (snd D) ''http_failed'' = counters w ''http_failed'' \<and>
                   socks (snd D) = socks w @ [k'] \<and> \<not> conn_closed k'))"
  unfolding D_def d_def tgt_def conf_def Dial_cases [OF assms(1)]
  by (auto simp: env_defs open_conns_def Write_def conn_Close_def
      split: sum.splits prod.splits option.splits if_splits)

theorem Dial_outcomes_witness:
  "fst (Dial ''/core'' (node0 []) 0 ''flaky'' 5) = DialRet (Inl ''broken pipe'') \<and>
   counters (snd (Dial ''/core'' (node0 []) 0 ''flaky'' 5)) ''http_failed'' = 1 \<and>
   counters (snd (Dial ''/core'' (node0 []) 0 ''flaky'' 5)) ''http_dialed'' = 1 \<and>
   length (tls_dials (snd (Dial ''/core'' (node0 []) 0 ''flaky'' 5))) = 1 \<and>
   socks (snd (Dial ''/core'' (node0 []) 0 ''flaky'' 5)) =
     [inbound_conn, fresh_conn\<lparr>write_fault := Some ''broken pipe'', conn_closed := True\<rparr>] \<and>
   open_conns (snd (Dial ''/core'' (node0 []) 0 ''flaky'' 5)) = [inbound_conn] \<and>
   fst (Dial ''/core'' (node0 []) 0 ''down'' 5) = DialRet (Inl ''connection refused'') \<and>
   counters (snd (Dial ''/core'' (node0 []) 0 ''down'' 5)) ''http_failed'' = 1 \<and>
   socks (snd (Dial ''/core'' (node0 []) 0 ''down'' 5)) = [inbound_conn] \<and>
   fst (Dial ''/core'' (node0 []) 0 ''10.0.0.5'' 5) = DialRet (Inr 1) \<and>
   counters (snd (Dial ''/core'' (node0 []) 0 ''10.0.0.5'' 5)) ''http_failed'' = 0 \<and>
   counters (snd (Dial ''/core'' (node0 []) 0 ''10.0.0.5'' 5)) ''http_dialed'' = 1"
proof -
  have h: "0 < length (heap (node0 []))" by (simp add: demo_defs)
  have 0: "counters (node0 []) = (\<lambda>_. 0)" "tls_dials (node0 []) = []"
    "open_conns (node0 []) = [inbound_conn]" "socks (node0 []) = [inbound_conn]"
    "network (node0 []) = net0"
    by (simp_all add: demo_defs open_conns_def)
  have a: "dial_address ''flaky'' = ''flaky:4934''" "dial_address ''down'' = ''down:4934''"
    "dial_address ''10.0.0.5'' = ''10.0.0.5:4934''"
    by (simp_all add: dial_address_def)
  have n: "net0 d ''tcp'' ''flaky:4934'' c = Inr (fresh_conn\<lparr>write_fault := Some ''broken pipe''\<rparr>)"
    "net0 d ''tcp'' ''down:4934'' c = Inl ''connection refused''"
    "net0 d ''tcp'' ''10.0.0.5:4934'' c = Inr fresh_conn" for d c
    by (simp_all add: net0_def)
  have wr: "Write (fresh_conn\<lparr>write_fault := Some ''broken pipe''\<rparr>) b =
              (Inl ''broken pipe'', fresh_conn\<lparr>write_fault := Some ''broken pipe''\<rparr>)"
    "Write fresh_conn b = (Inr (length b), fresh_conn\<lparr>sent := b\<rparr>)" for b
    by (simp_all add: Write_def fresh_conn_def)
  have 1: "fst (Dial ''/core'' (node0 []) 0 ''flaky'' 5) = DialRet (Inl ''broken pipe'') \<and>
   counters (snd (Dial ''/core'' (node0 []) 0 ''flaky'' 5)) ''http_failed'' = 1 \<and>
   counters (snd (Dial ''/core'' (node0 []) 0 ''flaky'' 5)) ''http_dialed'' = 1 \<and>
   length (tls_dials (snd (Dial ''/core'' (node0 []) 0 ''flaky'' 5))) = 1 \<and>
   socks (snd (Dial ''/core'' (node0 []) 0 ''flaky'' 5)) =
     [inbound_conn, fresh_conn\<lparr>write_fault := Some ''broken pipe'', conn_closed := True\<rparr>] \<and>
   open_conns (snd (Dial ''/core'' (node0 []) 0 ''flaky'' 5)) = [inbound_conn]"
    using Dial_outcomes [OF h, of "''/core''" "''flaky''" 5]
    unfolding 0 a n by (simp add: wr)
  have 2: "fst (Dial ''/core'' (node0 []) 0 ''down'' 5) = DialRet (Inl ''connection refused'') \<and>
   counters (snd (Dial ''/core'' (node0 []) 0 ''down'' 5)) ''http_failed'' = 1 \<and>
   socks (snd (Dial ''/core'' (node0 []) 0 ''down'' 5)) = [inbound_conn]"
    using Dial_outcomes [OF h, of "''/core''" "''down''" 5]
    unfolding 0 a n by simp
  have 3: "fst (Dial ''/core'' (node0 []) 0 ''10.0.0.5'' 5) = DialRet (Inr 1) \<and>
   counters (snd (Dial ''/core'' (node0 []) 0 ''10.0.0.5'' 5)) ''http_failed'' = 0 \<and>
   counters (snd (Dial ''/core'' (node0 []) 0 ''10.0.0.5'' 5)) ''http_dialed'' = 1"
    using Dial_outcomes [OF h, of "''/core''" "''10.0.0.5''" 5]
    unfolding 0 a n by (simp add: wr)
  from 1 2 3 show ?thesis by blast
qed

subsection \<open>The bytes Dial writes\<close>

text \<open>
  Claim C4, as the code has it. When \<^verbatim>\<open>Dial\<close> returns a connection, that connection is
  the one the TLS layer established, with nothing done to it but one write, of the bytes
  \<^verbatim>\<open>GET <core-prefix>/raft HTTP/1.1\<close>, \<^verbatim>\<open>Host: <address dialed>\<close>, \<^verbatim>\<open>Upgrade: raft-0\<close> and an
  empty line, each line ended by a single line feed. Nothing is read from it.
\<close>

theorem Dial_upgrade_request:
  assumes "h < length (heap w)" and "Dial P w h a t = (DialRet (Inr c), w')"
  shows "\<exists>k. network w ((dial (heap w ! h))\<lparr>Timeout := t\<rparr>) ''tcp'' (dial_address a)
               \<lparr>RootCAs = rootCAs (heap w ! h), Certificates = certificates (heap w ! h),
                ServerName = dial_address a, InsecureSkipVerify = True\<rparr> = Inr k \<and>
             c = length (socks w) \<and>
             socks w' = socks w @
               [k\<lparr>sent := sent k @ ''GET '' @ P @ ''/raft HTTP/1.1\<newline>Host: '' @ dial_address a @
                                   ''\<newline>Upgrade: raft-0\<newline>\<newline>''\<rparr>]"
  using assms(2) unfolding Dial_cases [OF assms(1)]
  by (auto simp: env_defs Write_def upgrade_request_def
      split: sum.splits prod.splits option.splits if_splits)

theorem Dial_upgrade_request_witness:
  "socks (snd (Dial ''/core'' (node0 []) 0 ''10.0.0.5'' 5)) =
     [inbound_conn,
      fresh_conn\<lparr>sent := ''GET /core/raft HTTP/1.1\<newline>Host: 10.0.0.5:4934\<newline>Upgrade: raft-0\<newline>\<newline>''\<rparr>]"
proof -
  have h: "0 < length (heap (node0 []))" by (simp add: demo_defs)
  have s: "Dial ''/core'' (node0 []) 0 ''10.0.0.5'' 5 =
             (DialRet (Inr 1), snd (Dial ''/core'' (node0 []) 0 ''10.0.0.5'' 5))"
    by (simp add: dial_eval)
  have n: "network (node0 []) = net0" "socks (node0 []) = [inbound_conn]"
    "dial_address ''10.0.0.5'' = ''10.0.0.5:4934''"
    by (simp_all add: demo_defs dial_address_def)
  from Dial_upgrade_request [OF h s] show ?thesis
    unfolding n by (auto simp: net0_def fresh_conn_def)
qed

text \<open>
  Claim C4 as the specification states it asks for CR LF line endings. A dial of
  \<^verbatim>\<open>10.0.0.5\<close> with core prefix \<^verbatim>\<open>/core\<close> succeeds and has written other bytes.
\<close>

theorem Dial_writes_bare_newlines:
  "fst (Dial ''/core'' (node0 []) 0 ''10.0.0.5'' 5) = DialRet (Inr 1) \<and>
   sent (socks (snd (Dial ''/core'' (node0 []) 0 ''10.0.0.5'' 5)) ! 1) =
     ''GET /core/raft HTTP/1.1\<newline>Host: 10.0.0.5:4934\<newline>Upgrade: raft-0\<newline>\<newline>'' \<and>
   sent (socks (snd (Dial ''/core'' (node0 []) 0 ''10.0.0.5'' 5)) ! 1) \<noteq>
     ''GET /core/raft HTTP/1.1'' @ CRLF @ ''Host: 10.0.0.5:4934'' @ CRLF @
     ''Upgrade: raft-0'' @ CRLF @ CRLF"
  by (simp add: dial_eval CRLF_def)

subsection \<open>Runs\<close>

lemma ServeHTTP_closed:
  "h < length (heap w) \<Longrightarrow> closed (heap w ! h) \<Longrightarrow> fst (ServeHTTP w h r rw) = shutting_down"
  by (simp add: ServeHTTP_def Let_def env_defs http_Error_def shutting_down_def)

lemma call_procs:
  assumes "call P w p = Some (q, w')"
  shows "procs w' = procs w"
proof (cases p)
  case (NewCall a certs k)
  with assms show ?thesis using New_heap [of w a certs k] by auto
next
  case (DialCall g a t)
  with assms show ?thesis using Dial_procs [of P w g a t] by auto
next
  case (AcceptCall g)
  with assms show ?thesis using Accept_frame [of w g] by auto
next
  case (CloseCall g)
  with assms show ?thesis using Close_procs [of w g] by auto
next
  case (StringCall g)
  with assms show ?thesis using String_frame [of w g] by auto
next
  case (ServeCall g r rw)
  with assms show ?thesis using ServeHTTP_frame [of w g r rw] by auto
qed (use assms in auto)

lemma step_Run:
  assumes "step P w (Run j) = Some w'"
  shows "\<exists>q w1. j < length (procs w) \<and> call P w (procs w ! j) = Some (q, w1) \<and>
                 w' = w1\<lparr>procs := (procs w)[j := q]\<rparr>"
proof -
  from assms obtain q w1 where c: "call P w (procs w ! j) = Some (q, w1)"
    and w': "w' = w1\<lparr>procs := (procs w1)[j := q]\<rparr>" and j: "j < length (procs w)"
    by (auto split: if_splits option.splits)
  with call_procs [OF c] show ?thesis by auto
qed

lemma rendezvous_Some:
  "rendezvous p q = Some (p', q') \<Longrightarrow>
   \<exists>ch c. p = ServeSend ch c \<and> q = AcceptRecv ch \<and> p' = ServeRet None \<and> q' = AcceptRet (Inr c)"
  by (erule rendezvous.elims) (auto split: if_splits)

lemma step_Rendezvous:
  assumes "step P w (Rendezvous j k) = Some w'"
  shows "\<exists>ch c. j < length (procs w) \<and> k < length (procs w) \<and>
                 procs w ! j = ServeSend ch c \<and> procs w ! k = AcceptRecv ch \<and>
                 w' = w\<lparr>procs := (procs w)[j := ServeRet None, k := AcceptRet (Inr c)]\<rparr>"
proof -
  from assms obtain p q where r: "rendezvous (procs w ! j) (procs w ! k) = Some (p, q)"
    and w': "w' = w\<lparr>procs := (procs w)[j := p, k := q]\<rparr>"
    and jk: "j < length (procs w)" "k < length (procs w)"
    by (auto split: if_splits option.splits)
  from rendezvous_Some [OF r] w' jk show ?thesis by auto
qed

lemma step_closed_serve:
  assumes s: "step P w ev = Some w'" and h: "h < length (heap w)" "closed (heap w ! h)"
    and i: "i < length (procs w)"
    and p: "procs w ! i = ServeCall h r rw \<or> procs w ! i = shutting_down"
  shows "procs w' ! i = ServeCall h r rw \<or> procs w' ! i = shutting_down"
proof (cases ev)
  case (Run j)
  with step_Run s obtain q w1 where c: "call P w (procs w ! j) = Some (q, w1)"
    and w': "w' = w1\<lparr>procs := (procs w)[j := q]\<rparr>"
    by blast
  show ?thesis
  proof (cases "j = i")
    case True
    with c p have "procs w ! i = ServeCall h r rw" by (auto simp: shutting_down_def)
    with c True have "q = fst (ServeHTTP w h r rw)" by auto
    with ServeHTTP_closed [OF h] w' True i show ?thesis by simp
  next
    case False
    with w' p show ?thesis by simp
  qed
next
  case (Rendezvous j k)
  with step_Rendezvous s obtain ch c where jk: "procs w ! j = ServeSend ch c" "procs w ! k = AcceptRecv ch"
    and w': "w' = w\<lparr>procs := (procs w)[j := ServeRet None, k := AcceptRet (Inr c)]\<rparr>"
    by blast
  from jk p have "j \<noteq> i" "k \<noteq> i" by (auto simp: shutting_down_def)
  with w' p show ?thesis by simp
qed

text \<open>
  Claim C9. Along every run of calls of \<^verbatim>\<open>NewHTTPStream\<close>, \<^verbatim>\<open>Dial\<close>, \<^verbatim>\<open>Accept\<close>, \<^verbatim>\<open>Close\<close>,
  \<^verbatim>\<open>Addr\<close>, \<^verbatim>\<open>String\<close>, \<^verbatim>\<open>Network\<close> and \<^verbatim>\<open>ServeHTTP\<close>, in any interleaving, a listener
  stays in the heap, keeps its address, and stays closed once it is closed; and a call of
  \<^verbatim>\<open>ServeHTTP\<close> that is still to run when the listener is closed never comes to send on
  the handoff channel: at every later point it has not run yet or has answered 503.
\<close>

theorem listener_invariants:
  assumes "run P w evs = Some w'" and "h < length (heap w)"
  shows "h < length (heap w') \<and>
         addr (heap w' ! h) = addr (heap w ! h) \<and>
         (closed (heap w ! h) \<longrightarrow> closed (heap w' ! h)) \<and>
         (\<forall>i r rw. closed (heap w ! h) \<and> i < length (procs w) \<and> procs w ! i = ServeCall h r rw \<longrightarrow>
            procs w' ! i = ServeCall h r rw \<or>
            procs w' ! i = ServeRet (Some (503, ''Server is shutting down\<newline>'')))"
proof -
  have serve: "procs w' ! i = ServeCall h r rw \<or> procs w' ! i = shutting_down"
    if "run P w evs = Some w'" "h < length (heap w)" "closed (heap w ! h)" "i < length (procs w)"
      "procs w ! i = ServeCall h r rw \<or> procs w ! i = shutting_down"
    for i r rw w
    using that
  proof (induction evs arbitrary: w)
    case Nil
    then show ?case by simp
  next
    case (Cons e es)
    then obtain w1 where s: "step P w e = Some w1" and r: "run P w1 es = Some w'"
      by (auto split: option.splits)
    from step_listener [OF s Cons.prems(2)] Cons.prems(3,4)
    have 1: "h < length (heap w1)" "closed (heap w1 ! h)" "i < length (procs w1)" by auto
    from step_closed_serve [OF s Cons.prems(2,3,4,5)] Cons.IH [OF r 1] show ?case by simp
  qed
  from run_listener [OF assms] serve [OF assms] show ?thesis
    by (auto simp: shutting_down_def)
qed

lemmas run_eval = Accept_def Close_def ServeHTTP_def String_def Addr_def Network_def
  Header_Get_def http_Error_def sock_upd_def SetDeadline_def SetWriteDeadline_def

theorem listener_invariants_witness:
  "run ''/core'' (snd (Close (node0 [ServeCall 0 peer_request (hijackable 0), AcceptCall 0]) 0))
       [Run 0, Run 1] \<noteq> None \<and>
   closed (heap (the (run ''/core'' (snd (Close (node0 [ServeCall 0 peer_request (hijackable 0), AcceptCall 0]) 0))
       [Run 0, Run 1])) ! 0) \<and>
   addr (heap (the (run ''/core'' (snd (Close (node0 [ServeCall 0 peer_request (hijackable 0), AcceptCall 0]) 0))
       [Run 0, Run 1])) ! 0) = ''10.0.0.1:4934'' \<and>
   procs (the (run ''/core'' (snd (Close (node0 [ServeCall 0 peer_request (hijackable 0), AcceptCall 0]) 0))
       [Run 0, Run 1])) =
     [ServeRet (Some (503, ''Server is shutting down\<newline>'')), AcceptRet (Inl ''Server is shutting down'')]"
proof -
  let ?w = "snd (Close (node0 [ServeCall 0 peer_request (hijackable 0), AcceptCall 0]) 0)"
  have h: "0 < length (heap ?w)" by (simp add: Close_def demo_defs)
  obtain w' where r: "run ''/core'' ?w [Run 0, Run 1] = Some w'"
    by (simp add: run_eval env_defs demo_defs)
  have p: "procs w' = [ServeRet (Some (503, ''Server is shutting down\<newline>'')),
                       AcceptRet (Inl ''Server is shutting down'')]"
    using r by (auto simp: run_eval env_defs demo_defs)
  have c: "closed (heap ?w ! 0)" "addr (heap ?w ! 0) = ''10.0.0.1:4934''"
    by (simp_all add: Close_def demo_defs)
  from listener_invariants [OF r h] c p show ?thesis unfolding r by simp
qed

subsection \<open>The address of a listener\<close>

text \<open>
  Claim C8, as the code has it. \<^verbatim>\<open>Addr\<close> returns the listener pointer itself. Through it,
  \<^verbatim>\<open>String\<close> gives the address the listener was constructed with, after any run, and
  \<^verbatim>\<open>Network\<close> gives \<^verbatim>\<open>tcp\<close>.
\<close>

theorem Addr_string_network:
  assumes "NewHTTPStream w0 a certs k = (NewRet h, w)" and "run P w evs = Some w'"
  shows "Addr h = h \<and> String w' (Addr h) = (StringRet a, w') \<and> Network (Addr h) = ''tcp''"
proof -
  from assms(1) New_heap [of w0 a certs k]
  have h: "h < length (heap w)" and a: "addr (heap w ! h) = a"
    by (auto simp: nth_append)
  from run_listener [OF assms(2) h] a show ?thesis
    by (auto simp: Addr_def String_def Network_def)
qed

theorem Addr_string_network_witness:
  "String (the (run ''/core'' (node0 [CloseCall 0, AddrCall 0]) [Run 0, Run 1])) (Addr 0) =
     (StringRet ''10.0.0.1:4934'', the (run ''/core'' (node0 [CloseCall 0, AddrCall 0]) [Run 0, Run 1])) \<and>
   Network (Addr 0) = ''tcp'' \<and>
   procs (the (run ''/core'' (node0 [CloseCall 0, AddrCall 0]) [Run 0, Run 1])) = [CloseRet None, AddrRet 0]"
proof -
  let ?w = "node0 [CloseCall 0, AddrCall 0]"
  have n: "NewHTTPStream ((world0 net0 [CloseCall 0, AddrCall 0])\<lparr>socks := [inbound_conn]\<rparr>)
             ''10.0.0.1:4934'' [''cert''] ca0 = (NewRet 0, ?w)"
    by (simp add: demo_defs)
  obtain w' where r: "run ''/core'' ?w [Run 0, Run 1] = Some w'"
    by (simp add: run_eval env_defs demo_defs)
  have p: "procs w' = [CloseRet None, AddrRet 0]"
    using r by (auto simp: run_eval env_defs demo_defs)
  from Addr_string_network [OF n r] p show ?thesis unfolding r by (simp add: Addr_def)
qed

text \<open>
  Claim C8 as the specification states it asks for a value that does not alias the
  listener. The value \<^verbatim>\<open>Addr\<close> returns is the listener: its \<open>closed\<close> flag is unset before
  \<^verbatim>\<open>Close\<close> and set after.
\<close>

theorem Addr_aliases_listener:
  "Addr 0 = 0 \<and> \<not> closed (heap (node0 []) ! Addr 0) \<and>
   closed (heap (snd (Close (node0 []) 0)) ! Addr 0)"
  by (simp add: Addr_def Close_def demo_defs)

subsection \<open>Close while Accept waits\<close>

text \<open>
  Claim C1 asks that \<^verbatim>\<open>Close\<close> unblocks an \<^verbatim>\<open>Accept\<close> that waits. On a node where
  \<^verbatim>\<open>Accept\<close> is called first, \<^verbatim>\<open>Close\<close> second and a valid request arrives third, the flag
  is set, \<^verbatim>\<open>Close\<close> has returned, the request has been answered 503, \<^verbatim>\<open>Accept\<close> is still
  in its channel receive, and no step is possible any more: it never returns.
\<close>

theorem Accept_stays_blocked:
  "run ''/core'' (node0 [AcceptCall 0, CloseCall 0, ServeCall 0 peer_request (hijackable 0)])
       [Run 0, Run 1, Run 2] \<noteq> None \<and>
   procs (the (run ''/core'' (node0 [AcceptCall 0, CloseCall 0, ServeCall 0 peer_request (hijackable 0)])
       [Run 0, Run 1, Run 2])) =
     [AcceptRecv 0, CloseRet None, ServeRet (Some (503, ''Server is shutting down\<newline>''))] \<and>
   closed (heap (the (run ''/core'' (node0 [AcceptCall 0, CloseCall 0, ServeCall 0 peer_request (hijackable 0)])
       [Run 0, Run 1, Run 2])) ! 0) \<and>
   (\<forall>ev. step ''/core'' (the (run ''/core''
       (node0 [AcceptCall 0, CloseCall 0, ServeCall 0 peer_request (hijackable 0)])
       [Run 0, Run 1, Run 2])) ev = None)"
proof -
  obtain w' where r: "run ''/core''
      (node0 [AcceptCall 0, CloseCall 0, ServeCall 0 peer_request (hijackable 0)])
      [Run 0, Run 1, Run 2] = Some w'"
    by (simp add: run_eval env_defs demo_defs)
  have p: "procs w' = [AcceptRecv 0, CloseRet None,
                       ServeRet (Some (503, ''Server is shutting down\<newline>''))]"
    and c: "closed (heap w' ! 0)"
    using r by (auto simp: run_eval env_defs demo_defs)
  have "step ''/core'' w' ev = None" for ev
  proof (cases ev)
    case (Run i)
    then show ?thesis using p by (auto simp: less_Suc_eq numeral_3_eq_3)
  next
    case (Rendezvous i j)
    then show ?thesis using p by (auto simp: less_Suc_eq numeral_3_eq_3)
  qed
  with p c show ?thesis unfolding r by simp
qed

subsection \<open>The handoff\<close>




















end
